theory Spec2Isabelle
  imports Complex_Main "HOL-Library.Sublist" "HOL-Library.Multiset"
begin

section \<open>Data model\<close>

text \<open>
  The pipeline works on pandas DataFrames. A frame is modelled row-major: the ordered
  column names, and the ordered rows, each an index label with one cell per column.
  A cell is a number or NaN (\<open>None\<close>); floats are read as the reals they denote.
  An index label is a timestamp (calendar day, seconds into the day) or a calendar date,
  as \<open>DatetimeIndex\<close> entries and \<open>datetime.date\<close> objects are in the source.
\<close>

type_synonym cell = "real option"

datatype idx = Timestamp int nat | Date int

type_synonym row = "idx \<times> cell list"

record table =
  columns :: "string list"
  rows :: "row list"

definition index :: "table \<Rightarrow> idx list" where
  "index t = map fst (rows t)"

definition nrows :: "table \<Rightarrow> nat" where
  "nrows t = length (rows t)"


text \<open>
  The position of a label in time: its day and the seconds into it, a date standing at
  midnight. The data model asks for a strictly increasing index.
\<close>

fun join_key :: "idx \<Rightarrow> int \<times> nat" where
  "join_key (Timestamp d s) = (d, s)"
| "join_key (Date d) = (d, 0)"

definition idx_less :: "idx \<Rightarrow> idx \<Rightarrow> bool" where
  "idx_less a b =
     (fst (join_key a) < fst (join_key b)
      \<or> (fst (join_key a) = fst (join_key b) \<and> snd (join_key a) < snd (join_key b)))"

definition increasing_index :: "table \<Rightarrow> bool" where
  "increasing_index t = sorted_wrt idx_less (index t)"

datatype py_error =
    KeyError string
  | ValueError
  | AttributeError
  | TypeError
  | InvalidIndexError
  | ImportError string
  | ConfigurationError

subsection \<open>Column access and assignment\<close>

fun col_pos :: "string \<Rightarrow> string list \<Rightarrow> nat option" where
  "col_pos c [] = None"
| "col_pos c (x # xs) = (if x = c then Some 0 else map_option Suc (col_pos c xs))"

text \<open>\<open>df[c]\<close>: the column named \<open>c\<close>, or \<open>KeyError\<close>.\<close>

definition get_column :: "table \<Rightarrow> string \<Rightarrow> py_error + cell list" where
  "get_column t c =
     (case col_pos c (columns t) of
        None \<Rightarrow> Inl (KeyError c)
      | Some j \<Rightarrow> Inr (map (\<lambda>r. snd r ! j) (rows t)))"

text \<open>
  \<open>df[c] = vs\<close> with \<open>vs\<close> aligned to the frame's index: an existing column is
  overwritten in its place, a new one is appended on the right. Values of another length
  are rejected.
\<close>

definition set_column :: "string \<Rightarrow> cell list \<Rightarrow> table \<Rightarrow> py_error + table" where
  "set_column c vs t =
     (if length vs \<noteq> length (rows t) then Inl ValueError
      else case col_pos c (columns t) of
        Some j \<Rightarrow> Inr (t\<lparr>rows := map (\<lambda>(r, v). (fst r, (snd r)[j := v])) (zip (rows t) vs)\<rparr>)
      | None \<Rightarrow> Inr \<lparr>columns = columns t @ [c],
                     rows = map (\<lambda>(r, v). (fst r, snd r @ [v])) (zip (rows t) vs)\<rparr>)"

section \<open>The label column (data\_controller.py, main, lines 36--37)\<close>

text \<open>
  \<open>df["target"] = (df["Close"].shift(-1) > df["Close"]).astype(int)\<close>.
  \<open>Series.shift(p)\<close> moves the values by \<open>p\<close> positions and fills the vacated
  positions with NaN; a comparison with NaN is False; \<open>astype(int)\<close> sends
  False to 0 and True to 1.
\<close>

definition shift :: "int \<Rightarrow> cell list \<Rightarrow> cell list" where
  "shift p cs =
     (let n = length cs; k = min (nat \<bar>p\<bar>) n
      in if 0 \<le> p then replicate k None @ take (n - k) cs
         else drop k cs @ replicate k None)"

definition gt_cell :: "cell \<Rightarrow> cell \<Rightarrow> bool" where
  "gt_cell a b = (case a of None \<Rightarrow> False
                  | Some x \<Rightarrow> (case b of None \<Rightarrow> False | Some y \<Rightarrow> y < x))"

definition astype_int :: "bool \<Rightarrow> cell" where
  "astype_int b = Some (if b then 1 else 0)"

definition target_column :: "cell list \<Rightarrow> cell list" where
  "target_column close = map (\<lambda>(nxt, cur). astype_int (gt_cell nxt cur)) (zip (shift (- 1) close) close)"

section \<open>Cleaning\<close>

text \<open>
  Modelled from the spec: \<open>clean_data\<close> of src/data/data\_cleaning.py is not among the
  sources. Spec, section 6: \<open>clean(table) -> table\<close>, dropping rows containing any
  undefined value.
\<close>

definition has_undefined :: "row \<Rightarrow> bool" where
  "has_undefined r = (None \<in> set (snd r))"

definition clean_data :: "table \<Rightarrow> table" where
  "clean_data t = t\<lparr>rows := filter (\<lambda>r. \<not> has_undefined r) (rows t)\<rparr>"


section \<open>External series aligner (feature\_engineering.py, add\_blockchain\_data)\<close>

text \<open>
  \<open>data.index = data.index.date\<close> (line 69): a \<open>DatetimeIndex\<close> has the attribute
  \<open>date\<close>, giving each timestamp's calendar date; an index of other objects has not.
\<close>

fun is_timestamp :: "idx \<Rightarrow> bool" where
  "is_timestamp (Timestamp d s) = True"
| "is_timestamp (Date d) = False"

fun day_of :: "idx \<Rightarrow> int" where
  "day_of (Timestamp d s) = d"
| "day_of (Date d) = d"

definition index_date :: "table \<Rightarrow> py_error + table" where
  "index_date t =
     (if list_all is_timestamp (index t)
      then Inr (t\<lparr>rows := map (\<lambda>r. (Date (day_of (fst r)), snd r)) (rows t)\<rparr>)
      else Inl AttributeError)"

text \<open>
  \<open>pd.merge(l, r, how="left", left_index=True, right_index=True)\<close>. When an index of
  dates is joined with a \<open>DatetimeIndex\<close>, pandas reads each date as the midnight
  timestamp of that day, so labels are compared through \<open>join_key\<close>. Every left row is
  kept, in order: once for each right row of the same key (in the right frame's order), or
  once with NaN in the right columns when there is none. The model writes the left row's
  label on the joined row. Column names
  that occur on both sides get the suffixes \<open>_x\<close> and \<open>_y\<close>.
\<close>

definition matches :: "idx \<Rightarrow> table \<Rightarrow> cell list list" where
  "matches k r = map snd (filter (\<lambda>y. join_key (fst y) = join_key k) (rows r))"

definition right_cells :: "idx \<Rightarrow> table \<Rightarrow> cell list list" where
  "right_cells k r =
     (case matches k r of
        [] \<Rightarrow> [replicate (length (columns r)) None]
      | m # ms \<Rightarrow> m # ms)"



definition join_row :: "table \<Rightarrow> row \<Rightarrow> row list" where
  "join_row r x = map (\<lambda>y. (fst x, snd x @ y)) (right_cells (fst x) r)"

definition merge_columns :: "string list \<Rightarrow> string list \<Rightarrow> string list" where
  "merge_columns l r =
     map (\<lambda>c. if c \<in> set r then c @ ''_x'' else c) l @
     map (\<lambda>c. if c \<in> set l then c @ ''_y'' else c) r"

definition merge_left :: "table \<Rightarrow> table \<Rightarrow> table" where
  "merge_left l r =
     \<lparr>columns = merge_columns (columns l) (columns r),
      rows = concat (map (join_row r) (rows l))\<rparr>"

text \<open>
  \<open>mempool_size_data.resample("D").mean()\<close> (line 84): one row for every calendar day
  from the first to the last day that has a sample, labelled with that day's midnight;
  each column holds the mean of the day's defined samples, NaN when there are none.
  Resampling needs a \<open>DatetimeIndex\<close>.
\<close>

definition col_mean :: "cell list \<Rightarrow> cell" where
  "col_mean cs =
     (let vs = map the (filter (\<lambda>c. c \<noteq> None) cs)
      in if vs = [] then None else Some (sum_list vs / real (length vs)))"

definition day_rows :: "int \<Rightarrow> table \<Rightarrow> cell list list" where
  "day_rows d t = map snd (filter (\<lambda>r. day_of (fst r) = d) (rows t))"

definition day_mean :: "table \<Rightarrow> int \<Rightarrow> row" where
  "day_mean t d =
     (Timestamp d 0,
      map (\<lambda>j. col_mean (map (\<lambda>cs. cs ! j) (day_rows d t))) [0..<length (columns t)])"

definition resample_daily_mean :: "table \<Rightarrow> py_error + table" where
  "resample_daily_mean t =
     (if \<not> list_all is_timestamp (index t) then Inl TypeError
      else if rows t = [] then Inr t
      else let ds = map day_of (index t)
           in Inr \<lparr>columns = columns t,
                   rows = map (day_mean t) [Min (set ds)..Max (set ds)]\<rparr>)"

text \<open>
  The fetch functions of src/features/blockchain.py are not among the sources; they are
  network calls, taken here as parameters: each maps the timespan and the start date to a
  frame.
\<close>

record blockchain_api =
  get_hash_rate_over_time :: "string \<Rightarrow> string option \<Rightarrow> table"
  get_avg_block_size :: "string \<Rightarrow> string option \<Rightarrow> table"
  get_network_difficulty :: "string \<Rightarrow> string option \<Rightarrow> table"
  get_miners_revenue :: "string \<Rightarrow> string option \<Rightarrow> table"
  get_mempool_size :: "string \<Rightarrow> string option \<Rightarrow> table"

text \<open>Lines 72--89: the four joins, the resampling of the mempool series, the fifth join.\<close>

definition merge_all :: "table \<Rightarrow> table list \<Rightarrow> table" where
  "merge_all data auxs = foldl merge_left data auxs"

definition merge_blockchain ::
  "table \<Rightarrow> table \<Rightarrow> table \<Rightarrow> table \<Rightarrow> table \<Rightarrow> table \<Rightarrow> py_error + table" where
  "merge_blockchain data hash_rate avg_block_size network_difficulty miners_revenue mempool_size =
     (let data4 = merge_all data [hash_rate, avg_block_size, network_difficulty, miners_revenue]
      in case resample_daily_mean mempool_size of
           Inl e \<Rightarrow> Inl e
         | Inr mempool_daily \<Rightarrow> Inr (merge_left data4 mempool_daily))"

subsection \<open>Objects and references\<close>

text \<open>
  Python passes a frame by reference, and the builder's stages assign to the frame they
  are given. A heap maps object addresses to frames; \<open>next_free\<close> is the first unused
  address. Frames built by pandas (\<open>pd.merge\<close>, the cleaning step) are new objects.
\<close>

record heap =
  frame_at :: "nat \<Rightarrow> table"
  next_free :: nat

definition alloc :: "table \<Rightarrow> heap \<Rightarrow> heap \<times> nat" where
  "alloc t h = (h\<lparr>frame_at := (frame_at h)(next_free h := t), next_free := Suc (next_free h)\<rparr>,
                next_free h)"

definition store :: "nat \<Rightarrow> table \<Rightarrow> heap \<Rightarrow> heap" where
  "store a t h = h\<lparr>frame_at := (frame_at h)(a := t)\<rparr>"

text \<open>
  \<open>add_blockchain_data(data, timespan, start)\<close>, with \<open>data\<close> the address of the
  caller's frame. Line 69 assigns to the caller's frame; the joins and the cleaning step
  build new frames, and the address of the last one is returned.
\<close>

definition add_blockchain_data ::
  "blockchain_api \<Rightarrow> heap \<Rightarrow> nat \<Rightarrow> string \<Rightarrow> string option \<Rightarrow> heap \<times> (py_error + nat)" where
  "add_blockchain_data api h data timespan start =
     (let hash_rate_data = get_hash_rate_over_time api timespan start;
          avg_block_size_data = get_avg_block_size api timespan start;
          network_difficulty_data = get_network_difficulty api timespan start;
          miners_revenue_data = get_miners_revenue api timespan start;
          mempool_size_data = get_mempool_size api timespan start
      in case index_date (frame_at h data) of
           Inl e \<Rightarrow> (h, Inl e)
         | Inr dated \<Rightarrow>
             (let h1 = store data dated h
              in case merge_blockchain dated hash_rate_data avg_block_size_data
                        network_difficulty_data miners_revenue_data mempool_size_data of
                   Inl e \<Rightarrow> (h1, Inl e)
                 | Inr merged \<Rightarrow>
                     (let (h2, res) = alloc (clean_data merged) h1 in (h2, Inr res))))"


section \<open>Indicator augmentation (feature\_engineering.py, add\_all\_technical\_indicators)\<close>

text \<open>
  The indicator functions of src/features/ta.py are not among the sources; they are taken
  as parameters. Each returns its columns aligned to the index of its input.
\<close>

record ta_api =
  calculate_bollinger_bands :: "cell list \<Rightarrow> cell list \<times> cell list \<times> cell list"
  calculate_stochastic_oscillator :: "table \<Rightarrow> cell list \<times> cell list"
  calculate_macd :: "cell list \<Rightarrow> cell list \<times> cell list \<times> cell list"
  calculate_rsi :: "cell list \<Rightarrow> cell list"
  calculate_sma :: "cell list \<Rightarrow> cell list"
  calculate_ema :: "cell list \<Rightarrow> cell list"
  calculate_atr :: "table \<Rightarrow> cell list"
  calculate_macd_histogram :: "cell list \<Rightarrow> cell list"
  calculate_obv :: "table \<Rightarrow> cell list"
  calculate_cci :: "table \<Rightarrow> cell list"

text \<open>
  Each of the lines 106--117 is a statement: its right-hand side is evaluated on the frame
  as it is then, and the resulting columns are assigned to the frame one after the other.
\<close>

type_synonym statement = "table \<Rightarrow> py_error + (string \<times> cell list) list"

definition of_close :: "(cell list \<Rightarrow> (string \<times> cell list) list) \<Rightarrow> statement" where
  "of_close f d = (case get_column d ''Close'' of Inl e \<Rightarrow> Inl e | Inr c \<Rightarrow> Inr (f c))"

definition indicator_statements :: "ta_api \<Rightarrow> statement list" where
  "indicator_statements ta =
     [of_close (\<lambda>c. case calculate_bollinger_bands ta c of
                  (u, m, l) \<Rightarrow> [(''upper_bb'', u), (''middle_bb'', m), (''lower_bb'', l)]),
      (\<lambda>d. case calculate_stochastic_oscillator ta d of
                  (k, dd) \<Rightarrow> Inr [(''slowk'', k), (''slowd'', dd)]),
      of_close (\<lambda>c. case calculate_macd ta c of
                  (m, sg, hs) \<Rightarrow> [(''macd'', m), (''macdsignal'', sg), (''macdhist'', hs)]),
      of_close (\<lambda>c. [(''rsi'', calculate_rsi ta c)]),
      of_close (\<lambda>c. [(''sma'', calculate_sma ta c)]),
      of_close (\<lambda>c. [(''ema'', calculate_ema ta c)]),
      (\<lambda>d. Inr [(''atr'', calculate_atr ta d)]),
      of_close (\<lambda>c. [(''macd_hist'', calculate_macd_histogram ta c)]),
      (\<lambda>d. Inr [(''obv'', calculate_obv ta d)]),
      (\<lambda>d. Inr [(''cci'', calculate_cci ta d)])]"

text \<open>A statement yields the names \<open>ns\<close> when those are the columns it assigns.\<close>

definition yields :: "statement \<Rightarrow> string list \<Rightarrow> bool" where
  "yields st ns = (\<forall>d cols. st d = Inr cols \<longrightarrow> map fst cols = ns)"

fun assign_columns :: "(string \<times> cell list) list \<Rightarrow> heap \<Rightarrow> nat \<Rightarrow> heap \<times> (py_error + unit)" where
  "assign_columns [] h a = (h, Inr ())"
| "assign_columns ((c, vs) # rest) h a =
     (case set_column c vs (frame_at h a) of
        Inl e \<Rightarrow> (h, Inl e)
      | Inr t \<Rightarrow> assign_columns rest (store a t h) a)"

fun exec_statements :: "statement list \<Rightarrow> heap \<Rightarrow> nat \<Rightarrow> heap \<times> (py_error + unit)" where
  "exec_statements [] h a = (h, Inr ())"
| "exec_statements (st # sts) h a =
     (case st (frame_at h a) of
        Inl e \<Rightarrow> (h, Inl e)
      | Inr cols \<Rightarrow>
          (case assign_columns cols h a of
             (h1, Inl e) \<Rightarrow> (h1, Inl e)
           | (h1, Inr u) \<Rightarrow> exec_statements sts h1 a))"

definition add_all_technical_indicators :: "ta_api \<Rightarrow> heap \<Rightarrow> nat \<Rightarrow> heap \<times> (py_error + nat)" where
  "add_all_technical_indicators ta h data =
     (case exec_statements (indicator_statements ta) h data of
        (h1, Inl e) \<Rightarrow> (h1, Inl e)
      | (h1, Inr u) \<Rightarrow> (let (h2, res) = alloc (clean_data (frame_at h1 data)) h1 in (h2, Inr res)))"

section \<open>Sequence windows and the autoencoder feature (extract\_lstm\_features)\<close>

type_synonym window = "cell list list"

text \<open>
  Modelled from the spec: \<open>create_sequences\<close> of src/features/extraction/lstm.py is not
  among the sources. Spec, section 4.4: given a table of \<open>N\<close> rows and a window length
  \<open>L < N\<close>, produce \<open>N - L\<close> windows, window \<open>i\<close> covering rows \<open>[i, i+L)\<close>, in
  chronological order; a window length \<open>\<ge>\<close> the row count is rejected with a
  configuration error.
\<close>

definition windows :: "table \<Rightarrow> nat \<Rightarrow> window list" where
  "windows df sequence_length =
     map (\<lambda>i. map snd (take sequence_length (drop i (rows df))))
         [0..<nrows df - sequence_length]"

definition create_sequences :: "table \<Rightarrow> nat \<Rightarrow> py_error + window list" where
  "create_sequences df sequence_length =
     (if nrows df \<le> sequence_length then Inl ConfigurationError
      else Inr (windows df sequence_length))"

text \<open>
  The network functions of the same file are parameters: building a model for an input
  shape, training it on the windows for a number of epochs, and the trained model's
  prediction, one matrix per window.
\<close>

record 'm lstm_api =
  build_lstm_model :: "nat \<times> nat \<Rightarrow> 'm"
  train_model :: "'m \<Rightarrow> window list \<Rightarrow> nat \<Rightarrow> 'm"
  predict :: "'m \<Rightarrow> window list \<Rightarrow> cell list list list"

text \<open>\<open>features.mean(axis=(1, 2))\<close>: the mean of all entries of one window's matrix;
  NaN when an entry is NaN or the matrix has no entry.\<close>

definition np_mean :: "cell list list \<Rightarrow> cell" where
  "np_mean m =
     (let xs = concat m
      in if xs = [] \<or> None \<in> set xs then None
         else Some (sum_list (map the xs) / real (length xs)))"

text \<open>A Python slice \<open>xs[start:stop]\<close>; negative bounds count from the end.\<close>

definition py_slice :: "'a list \<Rightarrow> int \<Rightarrow> int \<Rightarrow> 'a list" where
  "py_slice xs start stop =
     (let n = int (length xs);
          lo = (if start < 0 then max (n + start) 0 else min start n);
          hi = (if stop < 0 then max (n + stop) 0 else min stop n)
      in take (nat (hi - lo)) (drop (nat lo) xs))"

text \<open>
  \<open>pd.concat([a, b], axis=1)\<close>: the columns of \<open>a\<close>, then those of \<open>b\<close>. Frames with
  the same index are put side by side. Otherwise the rows are the labels of \<open>a\<close> followed
  by the labels only \<open>b\<close> has, each frame giving NaN at a label it lacks; this needs both
  indexes free of duplicates.
\<close>

definition row_at :: "idx \<Rightarrow> table \<Rightarrow> cell list" where
  "row_at k t = (case map_of (rows t) k of
                   None \<Rightarrow> replicate (length (columns t)) None
                 | Some cs \<Rightarrow> cs)"

definition concat_axis1 :: "table \<Rightarrow> table \<Rightarrow> py_error + table" where
  "concat_axis1 a b =
     (if index a = index b
      then Inr \<lparr>columns = columns a @ columns b,
                rows = map (\<lambda>(x, y). (fst x, snd x @ snd y)) (zip (rows a) (rows b))\<rparr>
      else if \<not> distinct (index a) \<or> \<not> distinct (index b) then Inl InvalidIndexError
      else Inr \<lparr>columns = columns a @ columns b,
                rows = map (\<lambda>k. (k, row_at k a @ row_at k b))
                           (index a @ filter (\<lambda>k. k \<notin> set (index a)) (index b))\<rparr>)"

text \<open>Lines 137--147: the model is built, trained for 10 epochs and run on the windows;
  each window's output is averaged to one scalar.\<close>

definition window_features :: "'m lstm_api \<Rightarrow> table \<Rightarrow> nat \<Rightarrow> window list \<Rightarrow> cell list" where
  "window_features api df sequence_length X =
     (let model = build_lstm_model api (sequence_length, length (columns df));
          model = train_model api model X 10;
          features = predict api model X
      in map np_mean features)"

text \<open>The calls made to the windowing and network functions, in order.\<close>

datatype event = CreateSequences | BuildModel | TrainModel nat | Predict

text \<open>
  \<open>extract_lstm_features(df, sequence_length)\<close>, lines 125--158, over a windowing
  function \<open>cs\<close>. The result is the trace of calls and the returned frame or the error
  raised. Assigning an index of another length to \<open>features_df\<close> (line 153) raises
  \<open>ValueError\<close>.
\<close>

abbreviation feature_frame :: "idx list \<Rightarrow> cell list \<Rightarrow> table" where
  "feature_frame ks fm \<equiv> \<lparr>columns = [''lstm_feature''], rows = zip ks (map (\<lambda>v. [v]) fm)\<rparr>"

definition features_df :: "idx list \<Rightarrow> cell list \<Rightarrow> py_error + table" where
  "features_df new_index features_mean =
     (if length new_index \<noteq> length features_mean then Inl ValueError
      else Inr (feature_frame new_index features_mean))"

definition extract_lstm_features_with ::
  "(table \<Rightarrow> nat \<Rightarrow> py_error + window list) \<Rightarrow> 'm lstm_api \<Rightarrow> table \<Rightarrow> nat
     \<Rightarrow> event list \<times> (py_error + table)" where
  "extract_lstm_features_with cs api df sequence_length =
     (case cs df sequence_length of
        Inl e \<Rightarrow> ([CreateSequences], Inl e)
      | Inr X \<Rightarrow>
          ([CreateSequences, BuildModel, TrainModel 10, Predict],
           case features_df (py_slice (index df) (int sequence_length - 1) (- 1))
                            (window_features api df sequence_length X) of
             Inl e \<Rightarrow> Inl e
           | Inr f \<Rightarrow> concat_axis1 df f))"

definition extract_lstm_features ::
  "'m lstm_api \<Rightarrow> table \<Rightarrow> nat \<Rightarrow> event list \<times> (py_error + table)" where
  "extract_lstm_features = extract_lstm_features_with create_sequences"


section \<open>The entry point (data\_controller.py)\<close>

text \<open>
  The names that feature\_engineering.py binds at module level: its imports (lines 12--41)
  and its three function definitions (lines 44, 97 and 125).
\<close>

definition feature_engineering_names :: "string list" where
  "feature_engineering_names =
     [''pd'',
      ''get_hash_rate_over_time'', ''get_avg_block_size'', ''get_network_difficulty'',
      ''get_miners_revenue'', ''get_mempool_size'',
      ''calculate_bollinger_bands'', ''calculate_stochastic_oscillator'', ''calculate_macd'',
      ''calculate_rsi'', ''calculate_sma'', ''calculate_ema'', ''calculate_atr'',
      ''calculate_macd_histogram'', ''calculate_obv'', ''calculate_cci'',
      ''create_sequences'', ''build_lstm_model'', ''train_model'',
      ''clean_data'',
      ''add_blockchain_data'', ''add_all_technical_indicators'', ''extract_lstm_features'']"

text \<open>
  \<open>from m import n1, n2, ...\<close> looks the names up in the module, one after the other;
  the first one that the module does not bind raises \<open>ImportError\<close>.
\<close>

fun import_from :: "string list \<Rightarrow> string list \<Rightarrow> py_error + unit" where
  "import_from ns [] = Inr ()"
| "import_from ns (n # rest) = (if n \<in> set ns then import_from ns rest else Inl (ImportError n))"

text \<open>Lines 15--19 of data\_controller.py.\<close>

definition data_controller_imports :: "py_error + unit" where
  "data_controller_imports =
     import_from feature_engineering_names
       [''add_all_technical_indicators'', ''add_blockchain_data'', ''extract_features'']"

text \<open>
  What \<open>main\<close> calls outside this repository's sources: the price fetch, the indicator
  and blockchain functions, scikit-learn's split, and whatever the name
  \<open>extract_features\<close> would be bound to.
\<close>

record 'r environment =
  fetch_bitcoin_data :: "string \<Rightarrow> string \<Rightarrow> table"
  indicators :: ta_api
  blockchain :: blockchain_api
  train_test_split :: "table \<Rightarrow> cell list \<Rightarrow> table \<times> table \<times> cell list \<times> cell list"
  extract_features :: "table \<Rightarrow> nat \<Rightarrow> table \<Rightarrow> cell list \<Rightarrow> py_error + 'r"

text \<open>\<open>df.drop(c, axis=1)\<close>: the frame without the columns named \<open>c\<close>.\<close>

definition drop_column :: "string \<Rightarrow> table \<Rightarrow> py_error + table" where
  "drop_column c t =
     (if c \<notin> set (columns t) then Inl (KeyError c)
      else Inr \<lparr>columns = filter (\<lambda>x. x \<noteq> c) (columns t),
                rows = map (\<lambda>r. (fst r, map snd (filter (\<lambda>p. fst p \<noteq> c) (zip (columns t) (snd r)))))
                           (rows t)\<rparr>)"

definition empty_heap :: heap where
  "empty_heap = \<lparr>frame_at = (\<lambda>a. \<lparr>columns = [], rows = []\<rparr>), next_free = 0\<rparr>"

text \<open>The body of \<open>main\<close>, lines 33--60.\<close>

definition main_body :: "'r environment \<Rightarrow> string \<Rightarrow> string \<Rightarrow> py_error + 'r" where
  "main_body env start_date end_date =
     (let (h0, df) = alloc (fetch_bitcoin_data env start_date end_date) empty_heap
      in case get_column (frame_at h0 df) ''Close'' of
           Inl e \<Rightarrow> Inl e
         | Inr close \<Rightarrow>
      (case set_column ''target'' (target_column close) (frame_at h0 df) of
           Inl e \<Rightarrow> Inl e
         | Inr labelled \<Rightarrow>
      (case add_all_technical_indicators (indicators env) (store df labelled h0) df of
           (h1, Inl e) \<Rightarrow> Inl e
         | (h1, Inr df1) \<Rightarrow>
      (case add_blockchain_data (blockchain env) h1 df1 ''3years'' (Some start_date) of
           (h2, Inl e) \<Rightarrow> Inl e
         | (h2, Inr df2) \<Rightarrow>
      (let cleaned = clean_data (frame_at h2 df2)
       in case drop_column ''target'' cleaned of
            Inl e \<Rightarrow> Inl e
          | Inr X \<Rightarrow>
      (case get_column cleaned ''target'' of
            Inl e \<Rightarrow> Inl e
          | Inr y \<Rightarrow>
      (case train_test_split env X y of
            (X_train, X_test, y_train, y_test) \<Rightarrow>
              extract_features env cleaned 30 X_train y_train)))))))"

text \<open>
  Calling \<open>main\<close> needs its module loaded: the module's import statements run first,
  and an error there leaves \<open>main\<close> undefined.
\<close>

definition main :: "'r environment \<Rightarrow> string \<Rightarrow> string \<Rightarrow> py_error + 'r" where
  "main env start_date end_date =
     (case data_controller_imports of
        Inl e \<Rightarrow> Inl e
      | Inr u \<Rightarrow> main_body env start_date end_date)"


section \<open>Example inputs\<close>

definition ex_gappy :: table where
  "ex_gappy =
     \<lparr>columns = [''Close'', ''HashRate''],
      rows = [(Date 0, [Some 1, None]), (Date 1, [Some 2, Some 3]),
              (Date 2, [None, None]), (Date 3, [Some 4, Some 5])]\<rparr>"

definition ex_df4 :: table where
  "ex_df4 =
     \<lparr>columns = [''Close''],
      rows = [(Date 0, [Some 10]), (Date 1, [Some 12]), (Date 2, [Some 11]), (Date 3, [Some 13])]\<rparr>"

definition ex_dup :: table where
  "ex_dup =
     \<lparr>columns = [''Close''],
      rows = [(Date 0, [Some 10]), (Date 0, [Some 12]), (Date 1, [Some 11])]\<rparr>"

text \<open>A network that answers every window row with the two activations 1 and 3.\<close>

definition ex_api :: "unit lstm_api" where
  "ex_api =
     \<lparr>build_lstm_model = (\<lambda>shape. ()),
      train_model = (\<lambda>m X epochs. m),
      predict = (\<lambda>m X. map (map (\<lambda>r. [Some 1, Some 3])) X)\<rparr>"

text \<open>A windowing function that returns a single window, whatever the frame.\<close>

definition ex_one_window :: "table \<Rightarrow> nat \<Rightarrow> py_error + window list" where
  "ex_one_window df sequence_length = Inr [[[Some 10], [Some 12]]]"





definition ex_series :: "string \<Rightarrow> real \<Rightarrow> table" where
  "ex_series name v = \<lparr>columns = [name], rows = [(Timestamp 0 0, [Some v])]\<rparr>"




text \<open>
  A caller's heap with one price frame at address 0; fetch functions that return one-row
  series; indicator functions that return the close column, or a column of NaN.
\<close>

definition ex_frame :: table where
  "ex_frame =
     \<lparr>columns = [''Close''],
      rows = [(Timestamp 0 0, [Some 10]), (Timestamp 1 0, [Some 12])]\<rparr>"

definition ex_heap :: heap where
  "ex_heap = fst (alloc ex_frame empty_heap)"

definition ex_chain :: blockchain_api where
  "ex_chain =
     \<lparr>get_hash_rate_over_time = (\<lambda>timespan start. ex_series ''HashRate'' 2),
      get_avg_block_size = (\<lambda>timespan start. ex_series ''AvgBlockSize'' 3),
      get_network_difficulty = (\<lambda>timespan start. ex_series ''NetworkDifficulty'' 4),
      get_miners_revenue = (\<lambda>timespan start. ex_series ''MinersRevenue'' 5),
      get_mempool_size = (\<lambda>timespan start. ex_series ''MempoolSize'' 6)\<rparr>"

definition ex_ta :: ta_api where
  "ex_ta =
     \<lparr>calculate_bollinger_bands = (\<lambda>c. (c, c, c)),
      calculate_stochastic_oscillator = (\<lambda>d. (map (\<lambda>r. None) (rows d), map (\<lambda>r. None) (rows d))),
      calculate_macd = (\<lambda>c. (c, c, c)),
      calculate_rsi = (\<lambda>c. c),
      calculate_sma = (\<lambda>c. c),
      calculate_ema = (\<lambda>c. c),
      calculate_atr = (\<lambda>d. map (\<lambda>r. None) (rows d)),
      calculate_macd_histogram = (\<lambda>c. c),
      calculate_obv = (\<lambda>d. map (\<lambda>r. None) (rows d)),
      calculate_cci = (\<lambda>d. map (\<lambda>r. None) (rows d))\<rparr>"



section \<open>Properties\<close>

lemma shift_neg1: "shift (- 1) cs = (if cs = [] then [] else tl cs @ [None])"
  by (cases cs) (simp_all add: shift_def Let_def)

lemma length_shift: "length (shift p cs) = length cs"
  by (auto simp: shift_def Let_def)

lemma length_target_column: "length (target_column close) = length close"
  by (simp add: target_column_def length_shift)

subsection \<open>The label column\<close>

text \<open>
  C1, as stated, fails: for closes 10, 12, 11 the label column is not 1, 0, undefined.
\<close>

theorem target_last_counterexample:
  "target_column [Some 10, Some 12, Some 11] \<noteq> [Some 1, Some 0, None]"
  by (simp add: target_column_def shift_neg1 astype_int_def gt_cell_def)

lemma target_column_nth:
  assumes "Suc i < length close"
  shows "target_column close ! i = astype_int (gt_cell (close ! Suc i) (close ! i))"
proof -
  from assms have ne: "close \<noteq> []" by auto
  have "i < length (tl close)" using assms by simp
  then have "shift (- 1) close ! i = close ! Suc i"
    using ne by (simp add: shift_neg1 nth_append nth_tl)
  then show ?thesis
    using assms by (simp add: target_column_def length_shift)
qed

lemma target_column_last:
  assumes "close \<noteq> []"
  shows "last (target_column close) = Some 0"
proof -
  let ?n = "length close"
  have len: "length (target_column close) = ?n" by (rule length_target_column)
  have "shift (- 1) close ! (?n - 1) = None"
    using assms by (simp add: shift_neg1 nth_append)
  then have "target_column close ! (?n - 1) = Some 0"
    using assms by (simp add: target_column_def length_shift astype_int_def gt_cell_def)
  moreover have "target_column close \<noteq> []" using len assms by auto
  ultimately show ?thesis using len by (simp add: last_conv_nth)
qed

text \<open>
  C1, amended: the label column is as long as the close column; the label of a row with a
  successor is 1 if the next close exceeds the row's close and 0 otherwise (also 0 when
  either close is NaN); the label of the final row is 0, not undefined. For closes
  10, 12, 11 the labels are 1, 0, 0.
\<close>

theorem target_column_labels:
  "length (target_column close) = length close
   \<and> (\<forall>i a b. Suc i < length close \<and> close ! i = Some a \<and> close ! Suc i = Some b
        \<longrightarrow> target_column close ! i = Some (if a < b then 1 else 0))
   \<and> (\<forall>i. Suc i < length close \<and> (close ! i = None \<or> close ! Suc i = None)
        \<longrightarrow> target_column close ! i = Some 0)
   \<and> (close \<noteq> [] \<longrightarrow> last (target_column close) = Some 0)
   \<and> target_column [Some 10, Some 12, Some 11] = [Some 1, Some 0, Some 0]"
proof (intro conjI allI impI)
  show "length (target_column close) = length close" by (rule length_target_column)
next
  fix i a b
  assume "Suc i < length close \<and> close ! i = Some a \<and> close ! Suc i = Some b"
  then show "target_column close ! i = Some (if a < b then 1 else 0)"
    by (simp add: target_column_nth astype_int_def gt_cell_def)
next
  fix i
  assume "Suc i < length close \<and> (close ! i = None \<or> close ! Suc i = None)"
  then show "target_column close ! i = Some 0"
    by (auto simp: target_column_nth astype_int_def gt_cell_def split: option.splits)
next
  assume "close \<noteq> []"
  then show "last (target_column close) = Some 0" by (rule target_column_last)
next
  show "target_column [Some 10, Some 12, Some 11] = [Some 1, Some 0, Some 0]"
    by (simp add: target_column_def shift_neg1 astype_int_def gt_cell_def)
qed

theorem target_column_labels_witness:
  "target_column [Some 10, Some 12, Some 11] ! 0 = Some 1
   \<and> target_column [Some 10, None, Some 11] ! 0 = Some 0
   \<and> last (target_column [Some 10, Some 12, Some 11]) = Some 0"
proof -
  have a: "target_column [Some 10, Some 12, Some 11] ! 0 = Some 1"
    using target_column_labels [of "[Some 10, Some 12, Some 11]"] by simp
  have b: "target_column [Some 10, None, Some 11] ! 0 = Some 0"
    using target_column_labels [of "[Some 10, None, Some 11]"] by simp
  have c: "last (target_column [Some 10, Some 12, Some 11]) = Some 0"
    using target_column_labels [of "[Some 10, Some 12, Some 11]"] by simp
  show ?thesis using a b c by simp
qed

subsection \<open>The entry point\<close>

text \<open>
  C9: \<open>main\<close> never returns a feature array. Its module imports the name
  \<open>extract_features\<close> from the feature-engineering module, which binds
  \<open>extract_lstm_features\<close> but not \<open>extract_features\<close>; whatever the
  collaborators and the date range, the outcome is the import error.
\<close>

theorem main_import_error:
  "main env start_date end_date = Inl (ImportError ''extract_features'')
   \<and> ''extract_features'' \<notin> set feature_engineering_names
   \<and> ''extract_lstm_features'' \<in> set feature_engineering_names"
  by (simp add: main_def data_controller_imports_def feature_engineering_names_def)


subsection \<open>Windows and the autoencoder feature\<close>

lemma py_slice_window:
  assumes "1 \<le> L"
  shows "py_slice xs (int L - 1) (- 1) = take (length xs - L) (drop (L - 1) xs)"
proof (cases "L - 1 \<le> length xs")
  case True
  with assms have "nat (max (int (length xs) - 1) 0 - (int L - 1)) = length xs - L"
    by (auto simp: max_def)
  moreover from True assms have "nat (min (int L - 1) (int (length xs))) = L - 1"
    by (auto simp: min_def)
  moreover from assms have "nat (int L - 1) = L - 1" by simp
  ultimately show ?thesis
    using assms by (simp add: py_slice_def Let_def)
next
  case False
  then have "drop (L - 1) xs = []" by simp
  moreover from False assms have "nat (min (int L - 1) (int (length xs))) = length xs"
    by (auto simp: min_def)
  moreover from assms have "nat (int L - 1) = L - 1" by simp
  ultimately show ?thesis using assms by (simp add: py_slice_def Let_def)
qed

lemma py_slice_zero: "py_slice xs (- 1) (- 1) = []"
  by (simp add: py_slice_def Let_def)

lemma length_window_slice:
  assumes "1 \<le> L"
  shows "length (py_slice xs (int L - 1) (- 1)) = length xs - L"
  using assms by (auto simp: py_slice_window)

lemma idx_less_irrefl: "\<not> idx_less a a"
  by (simp add: idx_less_def)

lemma sorted_wrt_idx_less_distinct: "sorted_wrt idx_less ks \<Longrightarrow> distinct ks"
  by (induction ks) (auto simp: idx_less_irrefl)

lemma increasing_index_distinct: "increasing_index t \<Longrightarrow> distinct (index t)"
  by (simp add: increasing_index_def sorted_wrt_idx_less_distinct)

lemma in_slice_iff:
  assumes "distinct xs" "i < length xs"
  shows "xs ! i \<in> set (take m (drop s xs)) \<longleftrightarrow> s \<le> i \<and> i < s + m"
proof
  assume "xs ! i \<in> set (take m (drop s xs))"
  then obtain j where j: "j < length (take m (drop s xs))" "take m (drop s xs) ! j = xs ! i"
    by (auto simp: in_set_conv_nth)
  then have "xs ! (s + j) = xs ! i" "s + j < length xs" "j < m" by auto
  with assms have "s + j = i" by (simp add: nth_eq_iff_index_eq)
  with \<open>j < m\<close> show "s \<le> i \<and> i < s + m" by auto
next
  assume a: "s \<le> i \<and> i < s + m"
  then have "i - s < length (take m (drop s xs))" using assms by auto
  moreover have "take m (drop s xs) ! (i - s) = xs ! i" using a assms by auto
  ultimately show "xs ! i \<in> set (take m (drop s xs))" by (metis nth_mem)
qed

lemma row_at_own:
  assumes "distinct (index t)" "i < nrows t"
  shows "row_at (fst (rows t ! i)) t = snd (rows t ! i)"
proof -
  have "rows t ! i \<in> set (rows t)" using assms by (simp add: nrows_def)
  then have "(fst (rows t ! i), snd (rows t ! i)) \<in> set (rows t)" by simp
  then have "map_of (rows t) (fst (rows t ! i)) = Some (snd (rows t ! i))"
    using assms(1) unfolding index_def by (simp only: map_of_eq_Some_iff)
  then show ?thesis by (simp add: row_at_def)
qed

lemma row_at_feature:
  assumes d: "distinct (index df)" and i: "i < nrows df" and len: "length fm = nrows df - L"
    and L: "1 \<le> L"
  shows "row_at (index df ! i) (feature_frame (take (nrows df - L) (drop (L - 1) (index df))) fm)
         = [if L - 1 \<le> i \<and> Suc i < nrows df then fm ! (i - (L - 1)) else None]"
proof -
  let ?ks = "take (nrows df - L) (drop (L - 1) (index df))"
  have n: "length (index df) = nrows df" by (simp add: index_def nrows_def)
  have lks: "length ?ks = nrows df - L" using L n by auto
  have dks: "distinct ?ks" using d by simp
  have mem: "index df ! i \<in> set ?ks \<longleftrightarrow> L - 1 \<le> i \<and> Suc i < nrows df"
    using in_slice_iff[OF d, of i "nrows df - L" "L - 1"] i n L by auto
  show ?thesis
  proof (cases "L - 1 \<le> i \<and> Suc i < nrows df")
    case True
    then have j: "i - (L - 1) < length ?ks" using lks L by auto
    have "?ks ! (i - (L - 1)) = index df ! i" using True j n by auto
    moreover have "map_of (zip ?ks (map (\<lambda>v. [v]) fm)) (?ks ! (i - (L - 1)))
                   = Some (map (\<lambda>v. [v]) fm ! (i - (L - 1)))"
      using dks j lks len by (intro map_of_zip_nth) auto
    ultimately show ?thesis using True j lks len
      by (simp add: row_at_def)
  next
    case False
    with mem have "index df ! i \<notin> set ?ks" by blast
    then have "map_of (zip ?ks (map (\<lambda>v. [v]) fm)) (index df ! i) = None"
      using lks len by (subst map_of_zip_is_None) auto
    with False show ?thesis by (auto simp: row_at_def)
  qed
qed


lemma concat_axis1_features:
  assumes d: "distinct (index df)" and L: "1 \<le> L" and len: "length fm = nrows df - L"
  shows "concat_axis1 df (feature_frame (take (nrows df - L) (drop (L - 1) (index df))) fm)
         = Inr \<lparr>columns = columns df @ [''lstm_feature''],
                 rows = map (\<lambda>i. (fst (rows df ! i),
                                   snd (rows df ! i) @
                                   [if L - 1 \<le> i \<and> Suc i < nrows df then fm ! (i - (L - 1)) else None]))
                            [0..<nrows df]\<rparr>"
proof -
  let ?ks = "take (nrows df - L) (drop (L - 1) (index df))"
  let ?f = "feature_frame ?ks fm"
  have n: "length (index df) = nrows df" by (simp add: index_def nrows_def)
  have lks: "length ?ks = nrows df - L" using L n by auto
  have idxf: "index ?f = ?ks" using lks len by (simp add: index_def)
  show ?thesis
  proof (cases "nrows df = 0")
    case True
    then have "rows df = []" by (simp add: nrows_def)
    then show ?thesis by (simp add: concat_axis1_def index_def nrows_def)
  next
    case False
    then have "length (index ?f) < length (index df)" using idxf lks L n by simp
    then have ne: "index df \<noteq> index ?f" by auto
    have dks: "distinct (index ?f)" using d idxf by simp
    have "set ?ks \<subseteq> set (index df)"
      by (meson set_drop_subset set_take_subset subset_trans)
    then have flt: "filter (\<lambda>k. k \<notin> set (index df)) (index ?f) = []"
      using idxf by (auto simp: filter_empty_conv)
    have "map (\<lambda>k. (k, row_at k df @ row_at k ?f)) (index df)
          = map (\<lambda>i. (fst (rows df ! i), snd (rows df ! i) @
                       [if L - 1 \<le> i \<and> Suc i < nrows df then fm ! (i - (L - 1)) else None]))
                [0..<nrows df]"
    proof (rule nth_equalityI)
      show "length (map (\<lambda>k. (k, row_at k df @ row_at k ?f)) (index df))
            = length (map (\<lambda>i. (fst (rows df ! i), snd (rows df ! i) @
                       [if L - 1 \<le> i \<and> Suc i < nrows df then fm ! (i - (L - 1)) else None]))
                [0..<nrows df])" using n by simp
    next
      fix i assume "i < length (map (\<lambda>k. (k, row_at k df @ row_at k ?f)) (index df))"
      then have i: "i < nrows df" using n by simp
      have k: "index df ! i = fst (rows df ! i)" using i by (simp add: index_def nrows_def)
      have "row_at (index df ! i) df = snd (rows df ! i)"
        using row_at_own[OF d i] k by simp
      moreover note row_at_feature[OF d i len L]
      ultimately show "map (\<lambda>k. (k, row_at k df @ row_at k ?f)) (index df) ! i
            = map (\<lambda>i. (fst (rows df ! i), snd (rows df ! i) @
                       [if L - 1 \<le> i \<and> Suc i < nrows df then fm ! (i - (L - 1)) else None]))
                [0..<nrows df] ! i"
        using i n k by simp
    qed
    then show ?thesis using ne d dks flt by (simp add: concat_axis1_def)
  qed
qed


lemma extract_ok:
  assumes inc: "increasing_index df" and L: "1 \<le> L" and cs: "cs df L = Inr X"
    and len: "length (window_features api df L X) = nrows df - L"
  shows "snd (extract_lstm_features_with cs api df L)
         = Inr \<lparr>columns = columns df @ [''lstm_feature''],
                 rows = map (\<lambda>i. (fst (rows df ! i),
                                   snd (rows df ! i) @
                                   [if L - 1 \<le> i \<and> Suc i < nrows df
                                    then window_features api df L X ! (i - (L - 1)) else None]))
                            [0..<nrows df]\<rparr>"
proof -
  have d: "distinct (index df)" using inc by (rule increasing_index_distinct)
  have n: "length (index df) = nrows df" by (simp add: index_def nrows_def)
  have sl: "py_slice (index df) (int L - 1) (- 1) = take (nrows df - L) (drop (L - 1) (index df))"
    using py_slice_window[OF L, of "index df"] n by simp
  have "length (take (nrows df - L) (drop (L - 1) (index df))) = nrows df - L"
    using L n by auto
  then have "features_df (py_slice (index df) (int L - 1) (- 1)) (window_features api df L X)
        = Inr (feature_frame (take (nrows df - L) (drop (L - 1) (index df))) (window_features api df L X))"
    using len sl by (simp add: features_df_def)
  then show ?thesis
    using cs concat_axis1_features[OF d L len]
    by (simp add: extract_lstm_features_with_def)
qed

lemma extract_mismatch:
  assumes L: "1 \<le> L" and cs: "cs df L = Inr X"
    and len: "length (window_features api df L X) \<noteq> nrows df - L"
  shows "snd (extract_lstm_features_with cs api df L) = Inl ValueError"
proof -
  have n: "length (index df) = nrows df" by (simp add: index_def nrows_def)
  have "length (py_slice (index df) (int L - 1) (- 1)) = nrows df - L"
    using length_window_slice[OF L, of "index df"] n by simp
  then show ?thesis using cs len
    by (simp add: extract_lstm_features_with_def features_df_def)
qed

text \<open>
  C10, amended: for a frame \<open>df\<close> of \<open>N\<close> rows with a strictly increasing index
  and a window length \<open>L \<ge> 1\<close>, when windowing and prediction give exactly
  \<open>N - L\<close> outputs (none when \<open>L > N\<close>), \<open>extract_lstm_features\<close> returns a
  frame with the same index, every original column and value as before, and the one new
  column \<open>lstm_feature\<close> on the right; row \<open>i\<close> holds output \<open>i - (L - 1)\<close> when
  \<open>L - 1 \<le> i < N - 1\<close> and is undefined otherwise, so with defined outputs the column
  is undefined exactly on the first \<open>L - 1\<close> rows and on the last row. With any other
  number of outputs the reindexing step raises \<open>ValueError\<close>.
\<close>

theorem extract_lstm_features_frame:
  assumes "increasing_index df" and "1 \<le> L" and "cs df L = Inr X"
  shows "(length (window_features api df L X) = nrows df - L \<longrightarrow>
           (\<exists>R. snd (extract_lstm_features_with cs api df L) = Inr R
              \<and> columns R = columns df @ [''lstm_feature'']
              \<and> index R = index df
              \<and> map (\<lambda>r. butlast (snd r)) (rows R) = map snd (rows df)
              \<and> (\<forall>i < nrows df. last (snd (rows R ! i)) =
                    (if L - 1 \<le> i \<and> Suc i < nrows df
                     then window_features api df L X ! (i - (L - 1)) else None))
              \<and> (None \<notin> set (window_features api df L X) \<longrightarrow>
                    (\<forall>i < nrows df. (last (snd (rows R ! i)) = None) = (i < L - 1 \<or> Suc i = nrows df)))))
       \<and> (length (window_features api df L X) \<noteq> nrows df - L \<longrightarrow>
             snd (extract_lstm_features_with cs api df L) = Inl ValueError)"
proof (intro conjI impI)
  assume len: "length (window_features api df L X) = nrows df - L"
  let ?fm = "window_features api df L X"
  let ?R = "\<lparr>columns = columns df @ [''lstm_feature''],
             rows = map (\<lambda>i. (fst (rows df ! i),
                               snd (rows df ! i) @
                               [if L - 1 \<le> i \<and> Suc i < nrows df
                                then ?fm ! (i - (L - 1)) else None]))
                        [0..<nrows df]\<rparr>"
  have R: "snd (extract_lstm_features_with cs api df L) = Inr ?R"
    using assms len by (rule extract_ok[where cs = cs])
  have i1: "index ?R = index df"
    by (auto simp: index_def nrows_def intro!: nth_equalityI)
  have i2: "map (\<lambda>r. butlast (snd r)) (rows ?R) = map snd (rows df)"
    by (auto simp: nrows_def intro!: nth_equalityI)
  have i3: "\<forall>i < nrows df. last (snd (rows ?R ! i)) =
                    (if L - 1 \<le> i \<and> Suc i < nrows df then ?fm ! (i - (L - 1)) else None)"
    by simp
  have i4: "None \<notin> set ?fm \<longrightarrow>
      (\<forall>i < nrows df. (last (snd (rows ?R ! i)) = None) = (i < L - 1 \<or> Suc i = nrows df))"
  proof (intro impI allI)
    fix i assume nn: "None \<notin> set ?fm" and i: "i < nrows df"
    show "(last (snd (rows ?R ! i)) = None) = (i < L - 1 \<or> Suc i = nrows df)"
    proof (cases "L - 1 \<le> i \<and> Suc i < nrows df")
      case True
      then have "i - (L - 1) < length ?fm" using len \<open>1 \<le> L\<close> by auto
      then have "?fm ! (i - (L - 1)) \<in> set ?fm" by simp
      with nn have "?fm ! (i - (L - 1)) \<noteq> None" by metis
      with True i show ?thesis by auto
    next
      case False
      with i show ?thesis by auto
    qed
  qed
  show "\<exists>R. snd (extract_lstm_features_with cs api df L) = Inr R
              \<and> columns R = columns df @ [''lstm_feature'']
              \<and> index R = index df
              \<and> map (\<lambda>r. butlast (snd r)) (rows R) = map snd (rows df)
              \<and> (\<forall>i < nrows df. last (snd (rows R ! i)) =
                    (if L - 1 \<le> i \<and> Suc i < nrows df
                     then window_features api df L X ! (i - (L - 1)) else None))
              \<and> (None \<notin> set (window_features api df L X) \<longrightarrow>
                    (\<forall>i < nrows df. (last (snd (rows R ! i)) = None) = (i < L - 1 \<or> Suc i = nrows df)))"
    using R i1 i2 i3 i4 by (intro exI[of _ ?R] conjI) simp_all
next
  assume "length (window_features api df L X) \<noteq> nrows df - L"
  then show "snd (extract_lstm_features_with cs api df L) = Inl ValueError"
    using extract_mismatch assms by blast
qed


lemma ex_inc: "increasing_index ex_df4"
  by (simp add: increasing_index_def ex_df4_def index_def idx_less_def)

lemma ex_cs: "create_sequences ex_df4 2 = Inr [[[Some 10], [Some 12]], [[Some 12], [Some 11]]]"
  by (simp add: create_sequences_def windows_def ex_df4_def nrows_def upt_rec)

lemma ex_wf: "window_features ex_api ex_df4 2 [[[Some 10], [Some 12]], [[Some 12], [Some 11]]] = [Some 2, Some 2]"
  by (simp add: window_features_def ex_api_def np_mean_def)

text \<open>
  C10, as stated, fails for the window length 0: with the \<open>N - 0\<close> outputs the claim
  asks for, the index slice \<open>df.index[-1:-1]\<close> is empty and the reindexing step raises.
  It also fails for a frame with a repeated index label, which \<open>pd.concat\<close> refuses.
\<close>

theorem extract_lstm_features_zero_counterexample:
  "length (window_features ex_api ex_df4 0 (windows ex_df4 0)) = nrows ex_df4 - 0
   \<and> create_sequences ex_df4 0 = Inr (windows ex_df4 0)
   \<and> snd (extract_lstm_features_with create_sequences ex_api ex_df4 0) = Inl ValueError
   \<and> snd (extract_lstm_features_with create_sequences ex_api ex_dup 1) = Inl InvalidIndexError"
  by (simp add: extract_lstm_features_with_def create_sequences_def windows_def
      window_features_def ex_api_def ex_df4_def ex_dup_def nrows_def index_def
      features_df_def py_slice_def concat_axis1_def np_mean_def upt_rec)


lemma length_windows: "length (windows df L) = nrows df - L"
  by (simp add: windows_def)

lemma length_window_features:
  assumes "\<forall>m X. length (predict api m X) = length X"
  shows "length (window_features api df L X) = length X"
  using assms by (simp add: window_features_def Let_def)

lemma last_window_row:
  assumes "1 \<le> L" "i + L \<le> length xs"
  shows "last (take L (drop i xs)) = xs ! (i + L - 1)"
proof -
  have len: "length (take L (drop i xs)) = L" using assms by simp
  then have "take L (drop i xs) \<noteq> []" using assms by auto
  then have "last (take L (drop i xs)) = take L (drop i xs) ! (L - 1)"
    using len by (simp add: last_conv_nth)
  also have "\<dots> = xs ! (i + L - 1)" using assms by simp
  finally show ?thesis .
qed

text \<open>
  C2, amended: for a consolidated table of \<open>N\<close> rows (strictly increasing index) and a
  window length \<open>1 \<le> L < N\<close>, with a network that answers every window, there are
  exactly \<open>N - L\<close> windows and as many scalars; window \<open>i\<close> covers rows
  \<open>[i, i+L)\<close>, its last row is table row \<open>i + L - 1\<close>, and its scalar stands in the
  returned frame at that row, under that row's label. So row \<open>r\<close> with
  \<open>L - 1 \<le> r \<le> N - 2\<close> holds the scalar of window \<open>r - (L - 1)\<close>, and the first
  \<open>L - 1\<close> rows lack the feature.
\<close>

theorem window_feature_rows:
  assumes "increasing_index df" and "1 \<le> L" and "L < nrows df"
    and "\<forall>m X. length (predict api m X) = length X"
  shows "create_sequences df L = Inr (windows df L)
       \<and> length (windows df L) = nrows df - L
       \<and> length (window_features api df L (windows df L)) = nrows df - L
       \<and> (\<forall>i < nrows df - L.
             windows df L ! i = map snd (take L (drop i (rows df)))
           \<and> last (take L (drop i (rows df))) = rows df ! (i + L - 1))
       \<and> (\<exists>R. snd (extract_lstm_features api df L) = Inr R
             \<and> index R = index df
             \<and> (\<forall>i < nrows df - L.
                   fst (rows R ! (i + L - 1)) = fst (last (take L (drop i (rows df))))
                 \<and> last (snd (rows R ! (i + L - 1)))
                     = window_features api df L (windows df L) ! i)
             \<and> (\<forall>r. L - 1 \<le> r \<and> r \<le> nrows df - 2 \<longrightarrow>
                   last (snd (rows R ! r))
                     = window_features api df L (windows df L) ! (r - (L - 1)))
             \<and> (\<forall>r < L - 1. last (snd (rows R ! r)) = None))"
proof -
  let ?X = "windows df L"
  let ?fm = "window_features api df L ?X"
  let ?R = "\<lparr>columns = columns df @ [''lstm_feature''],
             rows = map (\<lambda>i. (fst (rows df ! i),
                               snd (rows df ! i) @
                               [if L - 1 \<le> i \<and> Suc i < nrows df
                                then ?fm ! (i - (L - 1)) else None]))
                        [0..<nrows df]\<rparr>"
  have cs: "create_sequences df L = Inr ?X"
    using assms(3) by (simp add: create_sequences_def)
  have len: "length ?fm = nrows df - L"
    using length_window_features[OF assms(4)] by (simp add: length_windows)
  have w: "\<forall>i < nrows df - L.
             ?X ! i = map snd (take L (drop i (rows df)))
           \<and> last (take L (drop i (rows df))) = rows df ! (i + L - 1)"
    using assms(2) by (auto simp: windows_def nrows_def last_window_row)
  have R: "snd (extract_lstm_features api df L) = Inr ?R"
    unfolding extract_lstm_features_def
    using assms(1,2) cs len by (rule extract_ok[where cs = create_sequences])
  have i1: "index ?R = index df"
    by (auto simp: index_def nrows_def intro!: nth_equalityI)
  have i2: "\<forall>i < nrows df - L.
                   fst (rows ?R ! (i + L - 1)) = fst (last (take L (drop i (rows df))))
                 \<and> last (snd (rows ?R ! (i + L - 1))) = ?fm ! i"
  proof (intro allI impI)
    fix i assume i: "i < nrows df - L"
    then have b: "i + L - 1 < nrows df" "Suc (i + L - 1) < nrows df" "L - 1 \<le> i + L - 1"
      "i + L - 1 - (L - 1) = i"
      using assms(2) by auto
    have "last (take L (drop i (rows df))) = rows df ! (i + L - 1)" using w i by blast
    then show "fst (rows ?R ! (i + L - 1)) = fst (last (take L (drop i (rows df))))
                 \<and> last (snd (rows ?R ! (i + L - 1))) = ?fm ! i"
      using b by simp
  qed
  have i3: "\<forall>r. L - 1 \<le> r \<and> r \<le> nrows df - 2 \<longrightarrow>
                   last (snd (rows ?R ! r)) = ?fm ! (r - (L - 1))"
  proof (intro allI impI)
    fix r assume r: "L - 1 \<le> r \<and> r \<le> nrows df - 2"
    then have "r < nrows df" "Suc r < nrows df" using assms(2,3) by auto
    then show "last (snd (rows ?R ! r)) = ?fm ! (r - (L - 1))" using r by simp
  qed
  have i4: "\<forall>r < L - 1. last (snd (rows ?R ! r)) = None"
    using assms(3) by auto
  have "\<exists>R. snd (extract_lstm_features api df L) = Inr R
             \<and> index R = index df
             \<and> (\<forall>i < nrows df - L.
                   fst (rows R ! (i + L - 1)) = fst (last (take L (drop i (rows df))))
                 \<and> last (snd (rows R ! (i + L - 1))) = ?fm ! i)
             \<and> (\<forall>r. L - 1 \<le> r \<and> r \<le> nrows df - 2 \<longrightarrow>
                   last (snd (rows R ! r)) = ?fm ! (r - (L - 1)))
             \<and> (\<forall>r < L - 1. last (snd (rows R ! r)) = None)"
    using R i1 i2 i3 i4 by (intro exI[of _ ?R] conjI)
  then show ?thesis using cs len w by (simp add: length_windows)
qed

text \<open>
  C2, as stated, fails for the window length 0, which is below every positive row count:
  no scalar is attached, the reindexing step raises.
\<close>

theorem window_feature_rows_zero_counterexample:
  "0 < nrows ex_df4
   \<and> increasing_index ex_df4
   \<and> snd (extract_lstm_features ex_api ex_df4 0) = Inl ValueError"
  by (simp add: extract_lstm_features_def extract_lstm_features_with_def create_sequences_def
      windows_def window_features_def ex_api_def ex_df4_def nrows_def index_def
      features_df_def py_slice_def np_mean_def upt_rec increasing_index_def idx_less_def)

text \<open>
  C5: when the window length is at least the row count, \<open>extract_lstm_features\<close>
  ends in the configuration error raised by the windowing step, which is its first call;
  no model is built and no training pass runs. (With a shorter window the trace does
  hold the training call.)
\<close>

theorem window_length_rejected:
  "(nrows df \<le> L \<longrightarrow>
       extract_lstm_features api df L = ([CreateSequences], Inl ConfigurationError)
     \<and> (\<forall>epochs. TrainModel epochs \<notin> set (fst (extract_lstm_features api df L))))
   \<and> (L < nrows df \<longrightarrow>
       fst (extract_lstm_features api df L) = [CreateSequences, BuildModel, TrainModel 10, Predict])"
  by (simp add: extract_lstm_features_def extract_lstm_features_with_def create_sequences_def)

theorem window_length_rejected_witness:
  "nrows ex_df4 \<le> 4
   \<and> extract_lstm_features ex_api ex_df4 4 = ([CreateSequences], Inl ConfigurationError)
   \<and> TrainModel 10 \<notin> set (fst (extract_lstm_features ex_api ex_df4 4))
   \<and> 2 < nrows ex_df4
   \<and> TrainModel 10 \<in> set (fst (extract_lstm_features ex_api ex_df4 2))"
proof -
  have n: "nrows ex_df4 = 4" by (simp add: ex_df4_def nrows_def)
  show ?thesis
    using window_length_rejected [of ex_df4 4 ex_api] window_length_rejected [of ex_df4 2 ex_api] n
    by simp
qed

theorem extract_lstm_features_frame_witness:
  "increasing_index ex_df4 \<and> (1::nat) \<le> 2
   \<and> create_sequences ex_df4 2 = Inr [[[Some 10], [Some 12]], [[Some 12], [Some 11]]]
   \<and> length (window_features ex_api ex_df4 2 [[[Some 10], [Some 12]], [[Some 12], [Some 11]]])
       = nrows ex_df4 - 2
   \<and> (\<exists>R. snd (extract_lstm_features_with create_sequences ex_api ex_df4 2) = Inr R
         \<and> columns R = [''Close'', ''lstm_feature'']
         \<and> last (snd (rows R ! 0)) = None
         \<and> last (snd (rows R ! 1)) = Some 2
         \<and> last (snd (rows R ! 2)) = Some 2
         \<and> last (snd (rows R ! 3)) = None)
   \<and> ex_one_window ex_df4 2 = Inr [[[Some 10], [Some 12]]]
   \<and> snd (extract_lstm_features_with ex_one_window ex_api ex_df4 2) = Inl ValueError"
proof -
  have n: "nrows ex_df4 = 4" by (simp add: ex_df4_def nrows_def)
  have one: "ex_one_window ex_df4 2 = Inr [[[Some 10], [Some 12]]]"
    by (simp add: ex_one_window_def)
  have l1: "length (window_features ex_api ex_df4 2 [[[Some 10], [Some 12]]]) \<noteq> nrows ex_df4 - 2"
    using n by (simp add: window_features_def ex_api_def)
  have bad: "snd (extract_lstm_features_with ex_one_window ex_api ex_df4 2) = Inl ValueError"
    using extract_lstm_features_frame
            [of ex_df4 2 ex_one_window "[[[Some 10], [Some 12]]]" ex_api] ex_inc one l1
    by simp
  have l2: "length (window_features ex_api ex_df4 2 [[[Some 10], [Some 12]], [[Some 12], [Some 11]]])
       = nrows ex_df4 - 2"
    using n by (simp add: ex_wf)
  have "\<exists>R. snd (extract_lstm_features_with create_sequences ex_api ex_df4 2) = Inr R
         \<and> columns R = columns ex_df4 @ [''lstm_feature'']
         \<and> (\<forall>i < nrows ex_df4. last (snd (rows R ! i)) =
               (if 2 - 1 \<le> i \<and> Suc i < nrows ex_df4
                then window_features ex_api ex_df4 2 [[[Some 10], [Some 12]], [[Some 12], [Some 11]]] ! (i - (2 - 1))
                else None))"
    using extract_lstm_features_frame
            [of ex_df4 2 create_sequences "[[[Some 10], [Some 12]], [[Some 12], [Some 11]]]" ex_api]
          ex_inc ex_cs l2
    by auto
  then obtain R where R: "snd (extract_lstm_features_with create_sequences ex_api ex_df4 2) = Inr R"
     "columns R = columns ex_df4 @ [''lstm_feature'']"
     and all: "\<forall>i < 4. last (snd (rows R ! i)) =
               (if 1 \<le> i \<and> Suc i < 4 then [Some 2, Some 2] ! (i - 1) else None)"
    using n ex_wf by auto
  have "last (snd (rows R ! 0)) = None" using all[rule_format, of 0] by simp
  moreover have "last (snd (rows R ! 1)) = Some 2" using all[rule_format, of 1] by simp
  moreover have "last (snd (rows R ! 2)) = Some 2" using all[rule_format, of 2] by simp
  moreover have "last (snd (rows R ! 3)) = None" using all[rule_format, of 3] by simp
  moreover have "columns R = [''Close'', ''lstm_feature'']" using R(2) by (simp add: ex_df4_def)
  ultimately have "\<exists>R. snd (extract_lstm_features_with create_sequences ex_api ex_df4 2) = Inr R
         \<and> columns R = [''Close'', ''lstm_feature'']
         \<and> last (snd (rows R ! 0)) = None
         \<and> last (snd (rows R ! 1)) = Some 2
         \<and> last (snd (rows R ! 2)) = Some 2
         \<and> last (snd (rows R ! 3)) = None"
    using R(1) by blast
  then show ?thesis using bad one ex_inc ex_cs l2 by simp
qed

theorem window_feature_rows_witness:
  "increasing_index ex_df4 \<and> (1::nat) \<le> 2 \<and> 2 < nrows ex_df4
   \<and> (\<forall>m X. length (predict ex_api m X) = length X)
   \<and> length (windows ex_df4 2) = 2
   \<and> windows ex_df4 2 ! 0 = [[Some 10], [Some 12]]
   \<and> (\<exists>R. snd (extract_lstm_features ex_api ex_df4 2) = Inr R \<and> index R = index ex_df4
         \<and> last (snd (rows R ! 0)) = None)"
proof -
  have n: "nrows ex_df4 = 4" by (simp add: ex_df4_def nrows_def)
  have p: "\<forall>m X. length (predict ex_api m X) = length X" by (simp add: ex_api_def)
  have w: "windows ex_df4 2 ! 0 = [[Some 10], [Some 12]]"
    by (simp add: windows_def ex_df4_def nrows_def upt_rec)
  from window_feature_rows [OF ex_inc _ _ p, of 2] n
  show ?thesis using ex_inc p w by auto
qed


subsection \<open>External series aligner\<close>




















lemma col_pos_None: "col_pos c cs = None \<longleftrightarrow> c \<notin> set cs"
  by (induction cs) auto







































subsection \<open>The builder's stages and the caller's frame\<close>

lemma ex_heap0: "frame_at ex_heap 0 = ex_frame \<and> next_free ex_heap = 1"
  by (simp add: ex_heap_def alloc_def empty_heap_def)

lemma ex_bc0: "frame_at (fst (add_blockchain_data ex_chain ex_heap 0 ''1year'' None)) 0
    = \<lparr>columns = [''Close''], rows = [(Date 0, [Some 10]), (Date 1, [Some 12])]\<rparr>"
  by code_simp

lemma ex_bc1: "snd (add_blockchain_data ex_chain ex_heap 0 ''1year'' None) = Inr 1"
  by code_simp

lemma ex_ta0: "columns (frame_at (fst (add_all_technical_indicators ex_ta ex_heap 0)) 0) =
   [''Close'', ''upper_bb'', ''middle_bb'', ''lower_bb'', ''slowk'',
     ''slowd'', ''macd'', ''macdsignal'', ''macdhist'', ''rsi'', ''sma'',
     ''ema'', ''atr'', ''macd_hist'', ''obv'', ''cci'']"
  by code_simp

lemma ex_ta1: "snd (add_all_technical_indicators ex_ta ex_heap 0) = Inr 1"
  by code_simp


lemma index_date_frame:
  assumes "index_date t = Inr t'"
  shows "columns t' = columns t \<and> map snd (rows t') = map snd (rows t)
       \<and> index t' = map (\<lambda>k. Date (day_of k)) (index t)"
  using assms by (auto simp: index_date_def index_def comp_def split: if_splits)

lemma add_blockchain_data_heap:
  assumes "add_blockchain_data api h a timespan start = (h', Inr r)"
  shows "\<exists>dated merged.
           index_date (frame_at h a) = Inr dated
         \<and> merge_blockchain dated (get_hash_rate_over_time api timespan start)
              (get_avg_block_size api timespan start) (get_network_difficulty api timespan start)
              (get_miners_revenue api timespan start) (get_mempool_size api timespan start)
            = Inr merged
         \<and> r = next_free h
         \<and> h' = \<lparr>frame_at = (frame_at h)(a := dated, next_free h := clean_data merged),
                  next_free = Suc (next_free h)\<rparr>"
  using assms
  by (auto simp: add_blockchain_data_def Let_def store_def alloc_def split: sum.splits)

lemma add_blockchain_data_error:
  assumes "add_blockchain_data api h a timespan start = (h', Inl e)"
  shows "next_free h' = next_free h \<and> (\<forall>b. b \<noteq> a \<longrightarrow> frame_at h' b = frame_at h b)"
  using assms
  by (auto simp: add_blockchain_data_def Let_def store_def alloc_def split: sum.splits)

lemma col_pos_Some_mem: "col_pos c cs = Some j \<Longrightarrow> c \<in> set cs"
  using col_pos_None[of c cs] by auto

lemma map_fst_zip_with:
  assumes "length vs = length xs"
  shows "map fst (map (\<lambda>(r, v). (fst r, g r v)) (zip xs vs)) = map fst xs"
proof -
  have "map fst (map (\<lambda>(r, v). (fst r, g r v)) (zip xs vs)) = map fst (map fst (zip xs vs))"
    by (simp add: comp_def case_prod_unfold)
  then show ?thesis using assms by simp
qed

lemma set_column_frame:
  assumes "set_column c vs t = Inr t'"
  shows "index t' = index t \<and> set (columns t') = insert c (set (columns t))"
proof -
  have len: "length vs = length (rows t)"
    using assms by (auto simp: set_column_def split: if_splits)
  note fst1 = map_fst_zip_with[OF len]
  show ?thesis
  proof (cases "col_pos c (columns t)")
    case None
    then have "t' = \<lparr>columns = columns t @ [c],
                     rows = map (\<lambda>(r, v). (fst r, snd r @ [v])) (zip (rows t) vs)\<rparr>"
      using assms len by (simp add: set_column_def)
    then show ?thesis using fst1[of "\<lambda>r v. snd r @ [v]"] by (simp add: index_def)
  next
    case (Some j)
    then have "t' = t\<lparr>rows := map (\<lambda>(r, v). (fst r, (snd r)[j := v])) (zip (rows t) vs)\<rparr>"
      using assms len by (simp add: set_column_def)
    then show ?thesis
      using fst1[of "\<lambda>r v. (snd r)[j := v]"] col_pos_Some_mem[OF Some]
      by (auto simp: index_def)
  qed
qed

lemma assign_columns_frame:
  assumes "assign_columns cols h a = (h', res)"
  shows "next_free h' = next_free h
       \<and> (\<forall>b. b \<noteq> a \<longrightarrow> frame_at h' b = frame_at h b)
       \<and> index (frame_at h' a) = index (frame_at h a)
       \<and> set (columns (frame_at h a)) \<subseteq> set (columns (frame_at h' a))
       \<and> (res = Inr () \<longrightarrow>
            set (columns (frame_at h' a)) = set (columns (frame_at h a)) \<union> set (map fst cols))"
  using assms
proof (induction cols arbitrary: h)
  case Nil
  then show ?case by simp
next
  case (Cons p cols)
  obtain c vs where p: "p = (c, vs)" by (cases p)
  show ?case
  proof (cases "set_column c vs (frame_at h a)")
    case (Inl e)
    with Cons.prems p show ?thesis by auto
  next
    case (Inr t)
    from set_column_frame[OF Inr]
    have t: "index t = index (frame_at h a)" "set (columns t) = insert c (set (columns (frame_at h a)))"
      by simp_all
    from Cons.prems p Inr have "assign_columns cols (store a t h) a = (h', res)" by simp
    from Cons.IH[OF this] t p show ?thesis
      by (auto simp: store_def)
  qed
qed

lemma exec_statements_frame:
  assumes "exec_statements sts h a = (h', res)" and "list_all2 yields sts nss"
  shows "next_free h' = next_free h
       \<and> (\<forall>b. b \<noteq> a \<longrightarrow> frame_at h' b = frame_at h b)
       \<and> index (frame_at h' a) = index (frame_at h a)
       \<and> set (columns (frame_at h a)) \<subseteq> set (columns (frame_at h' a))
       \<and> (res = Inr () \<longrightarrow>
            set (columns (frame_at h' a)) = set (columns (frame_at h a)) \<union> set (concat nss))"
  using assms
proof (induction sts arbitrary: h nss)
  case Nil
  then show ?case by simp
next
  case (Cons st sts)
  from Cons.prems(2) obtain ns nss' where nss: "nss = ns # nss'" "yields st ns" "list_all2 yields sts nss'"
    by (auto simp: list_all2_Cons1)
  show ?case
  proof (cases "st (frame_at h a)")
    case (Inl e)
    with Cons.prems(1) show ?thesis by auto
  next
    case (Inr cols)
    with nss(2) have names: "map fst cols = ns" by (auto simp: yields_def)
    obtain h1 r1 where a1: "assign_columns cols h a = (h1, r1)" by (cases "assign_columns cols h a")
    note f1 = assign_columns_frame[OF a1]
    show ?thesis
    proof (cases r1)
      case (Inl e)
      with Cons.prems(1) Inr a1 have "h' = h1" "res = Inl e" by simp_all
      with f1 show ?thesis by simp
    next
      case r: (Inr u)
      with Cons.prems(1) Inr a1 have "exec_statements sts h1 a = (h', res)" by simp
      from Cons.IH[OF this nss(3)] f1 r names nss(1) show ?thesis by auto
    qed
  qed
qed

lemma indicator_statements_yield:
  "list_all2 yields (indicator_statements ta)
     [[''upper_bb'', ''middle_bb'', ''lower_bb''], [''slowk'', ''slowd''],
      [''macd'', ''macdsignal'', ''macdhist''], [''rsi''], [''sma''], [''ema''], [''atr''],
      [''macd_hist''], [''obv''], [''cci'']]"
  by (auto simp: indicator_statements_def yields_def of_close_def split: sum.splits prod.splits)

lemma add_all_technical_indicators_heap:
  assumes "add_all_technical_indicators ta h a = (h', Inr r)" and "a < next_free h"
  shows "r = next_free h \<and> r \<noteq> a \<and> next_free h' = Suc (next_free h)
       \<and> (\<forall>b. b \<noteq> a \<and> b \<noteq> r \<longrightarrow> frame_at h' b = frame_at h b)
       \<and> index (frame_at h' a) = index (frame_at h a)
       \<and> set (columns (frame_at h' a)) = set (columns (frame_at h a)) \<union>
            {''upper_bb'', ''middle_bb'', ''lower_bb'', ''slowk'', ''slowd'', ''macd'',
             ''macdsignal'', ''macdhist'', ''rsi'', ''sma'', ''ema'', ''atr'', ''macd_hist'',
             ''obv'', ''cci''}
       \<and> frame_at h' r = clean_data (frame_at h' a)"
proof -
  obtain h1 r1 where e: "exec_statements (indicator_statements ta) h a = (h1, r1)"
    by (cases "exec_statements (indicator_statements ta) h a")
  from assms(1) e have r1: "r1 = Inr ()"
    by (cases r1) (auto simp: add_all_technical_indicators_def)
  from assms(1) e r1 have h': "h' = fst (alloc (clean_data (frame_at h1 a)) h1)"
    and r: "r = next_free h1"
    by (auto simp: add_all_technical_indicators_def alloc_def)
  note f = exec_statements_frame[OF e indicator_statements_yield]
  have nf: "next_free h1 = next_free h" using f by simp
  have ar: "a \<noteq> next_free h1" using assms(2) nf by simp
  show ?thesis
    using f r1 r nf ar by (auto simp: h' alloc_def)
qed

lemma add_blockchain_data_frames:
  assumes b: "add_blockchain_data api h a timespan start = (h1, Inr r1)" and "a < next_free h"
  shows "r1 = next_free h \<and> r1 \<noteq> a \<and> next_free h1 = Suc (next_free h)
          \<and> (\<forall>b. b \<noteq> a \<and> b \<noteq> r1 \<longrightarrow> frame_at h1 b = frame_at h b)
          \<and> index_date (frame_at h a) = Inr (frame_at h1 a)
          \<and> index (frame_at h1 a) = map (\<lambda>k. Date (day_of k)) (index (frame_at h a))
          \<and> columns (frame_at h1 a) = columns (frame_at h a)
          \<and> map snd (rows (frame_at h1 a)) = map snd (rows (frame_at h a))
          \<and> (\<exists>merged. merge_blockchain (frame_at h1 a) (get_hash_rate_over_time api timespan start)
                  (get_avg_block_size api timespan start) (get_network_difficulty api timespan start)
                  (get_miners_revenue api timespan start) (get_mempool_size api timespan start)
                = Inr merged
              \<and> frame_at h1 r1 = clean_data merged)"
proof -
  from add_blockchain_data_heap[OF b] obtain dated merged where
    d: "index_date (frame_at h a) = Inr dated"
    and m: "merge_blockchain dated (get_hash_rate_over_time api timespan start)
              (get_avg_block_size api timespan start) (get_network_difficulty api timespan start)
              (get_miners_revenue api timespan start) (get_mempool_size api timespan start)
            = Inr merged"
    and r: "r1 = next_free h"
    and h1: "h1 = \<lparr>frame_at = (frame_at h)(a := dated, next_free h := clean_data merged),
                  next_free = Suc (next_free h)\<rparr>"
    by blast
  have ne: "a \<noteq> next_free h" using assms(2) by simp
  have fa: "frame_at h1 a = dated" using h1 ne by simp
  have fr: "frame_at h1 r1 = clean_data merged" using h1 r by simp
  note fd = index_date_frame[OF d]
  have ex: "\<exists>merged. merge_blockchain (frame_at h1 a) (get_hash_rate_over_time api timespan start)
                  (get_avg_block_size api timespan start) (get_network_difficulty api timespan start)
                  (get_miners_revenue api timespan start) (get_mempool_size api timespan start)
                = Inr merged
              \<and> frame_at h1 r1 = clean_data merged"
    using m fa fr by blast
  have oth: "\<forall>b. b \<noteq> a \<and> b \<noteq> r1 \<longrightarrow> frame_at h1 b = frame_at h b" using h1 r by simp
  have nf: "next_free h1 = Suc (next_free h)" using h1 by simp
  show ?thesis
    using r ne nf oth d fa fd ex by (intro conjI) simp_all
qed

text \<open>
  C4, amended: both stages assign to the caller's frame and return a frame of their own.
  For a caller's frame at an allocated address, a successful blockchain-data merge returns
  a new object (an address unused before, so not the caller's), leaves every other object
  as it was, and leaves the caller's frame with its index replaced by the calendar dates
  (columns and cell values as before); the returned frame is the cleaned join of that
  re-indexed frame. A successful indicator augmentation returns a new object as well,
  leaves every other object as it was, and leaves the caller's frame with the same index
  and with the fifteen indicator columns added; the returned frame is the cleaned copy of
  it. (That cleaning builds a new frame is the model of the cleaning step.)
\<close>

theorem stages_assign_and_return_new:
  assumes "a < next_free h"
  shows "(add_blockchain_data api h a timespan start = (h1, Inr r1) \<longrightarrow>
            r1 = next_free h \<and> r1 \<noteq> a \<and> next_free h1 = Suc (next_free h)
          \<and> (\<forall>b. b \<noteq> a \<and> b \<noteq> r1 \<longrightarrow> frame_at h1 b = frame_at h b)
          \<and> index_date (frame_at h a) = Inr (frame_at h1 a)
          \<and> index (frame_at h1 a) = map (\<lambda>k. Date (day_of k)) (index (frame_at h a))
          \<and> columns (frame_at h1 a) = columns (frame_at h a)
          \<and> map snd (rows (frame_at h1 a)) = map snd (rows (frame_at h a))
          \<and> (\<exists>merged. merge_blockchain (frame_at h1 a) (get_hash_rate_over_time api timespan start)
                  (get_avg_block_size api timespan start) (get_network_difficulty api timespan start)
                  (get_miners_revenue api timespan start) (get_mempool_size api timespan start)
                = Inr merged
              \<and> frame_at h1 r1 = clean_data merged))
       \<and> (add_all_technical_indicators ta h a = (h2, Inr r2) \<longrightarrow>
            r2 = next_free h \<and> r2 \<noteq> a \<and> next_free h2 = Suc (next_free h)
          \<and> (\<forall>b. b \<noteq> a \<and> b \<noteq> r2 \<longrightarrow> frame_at h2 b = frame_at h b)
          \<and> index (frame_at h2 a) = index (frame_at h a)
          \<and> set (columns (frame_at h2 a)) = set (columns (frame_at h a)) \<union>
               {''upper_bb'', ''middle_bb'', ''lower_bb'', ''slowk'', ''slowd'', ''macd'',
                ''macdsignal'', ''macdhist'', ''rsi'', ''sma'', ''ema'', ''atr'', ''macd_hist'',
                ''obv'', ''cci''}
          \<and> frame_at h2 r2 = clean_data (frame_at h2 a))"
proof (rule conjI; rule impI)
  assume "add_blockchain_data api h a timespan start = (h1, Inr r1)"
  then show "r1 = next_free h \<and> r1 \<noteq> a \<and> next_free h1 = Suc (next_free h)
          \<and> (\<forall>b. b \<noteq> a \<and> b \<noteq> r1 \<longrightarrow> frame_at h1 b = frame_at h b)
          \<and> index_date (frame_at h a) = Inr (frame_at h1 a)
          \<and> index (frame_at h1 a) = map (\<lambda>k. Date (day_of k)) (index (frame_at h a))
          \<and> columns (frame_at h1 a) = columns (frame_at h a)
          \<and> map snd (rows (frame_at h1 a)) = map snd (rows (frame_at h a))
          \<and> (\<exists>merged. merge_blockchain (frame_at h1 a) (get_hash_rate_over_time api timespan start)
                  (get_avg_block_size api timespan start) (get_network_difficulty api timespan start)
                  (get_miners_revenue api timespan start) (get_mempool_size api timespan start)
                = Inr merged
              \<and> frame_at h1 r1 = clean_data merged)"
    using assms by (rule add_blockchain_data_frames)
next
  assume "add_all_technical_indicators ta h a = (h2, Inr r2)"
  then show "r2 = next_free h \<and> r2 \<noteq> a \<and> next_free h2 = Suc (next_free h)
          \<and> (\<forall>b. b \<noteq> a \<and> b \<noteq> r2 \<longrightarrow> frame_at h2 b = frame_at h b)
          \<and> index (frame_at h2 a) = index (frame_at h a)
          \<and> set (columns (frame_at h2 a)) = set (columns (frame_at h a)) \<union>
               {''upper_bb'', ''middle_bb'', ''lower_bb'', ''slowk'', ''slowd'', ''macd'',
                ''macdsignal'', ''macdhist'', ''rsi'', ''sma'', ''ema'', ''atr'', ''macd_hist'',
                ''obv'', ''cci''}
          \<and> frame_at h2 r2 = clean_data (frame_at h2 a)"
    using assms by (rule add_all_technical_indicators_heap)
qed

text \<open>
  C4, as stated, fails: after either stage the caller's frame is not what it was. The merge
  has replaced its timestamps by dates (line 69), the indicator augmentation has added its
  columns to it (lines 106--117).
\<close>

theorem caller_frame_changed_counterexample:
  "snd (add_blockchain_data ex_chain ex_heap 0 ''1year'' None) = Inr 1
   \<and> frame_at (fst (add_blockchain_data ex_chain ex_heap 0 ''1year'' None)) 0 \<noteq> frame_at ex_heap 0
   \<and> snd (add_all_technical_indicators ex_ta ex_heap 0) = Inr 1
   \<and> frame_at (fst (add_all_technical_indicators ex_ta ex_heap 0)) 0 \<noteq> frame_at ex_heap 0"
  by code_simp

theorem stages_assign_and_return_new_witness:
  "0 < next_free ex_heap
   \<and> add_blockchain_data ex_chain ex_heap 0 ''1year'' None
       = (fst (add_blockchain_data ex_chain ex_heap 0 ''1year'' None), Inr 1)
   \<and> index (frame_at (fst (add_blockchain_data ex_chain ex_heap 0 ''1year'' None)) 0)
       = [Date 0, Date 1]
   \<and> add_all_technical_indicators ex_ta ex_heap 0
       = (fst (add_all_technical_indicators ex_ta ex_heap 0), Inr 1)
   \<and> index (frame_at (fst (add_all_technical_indicators ex_ta ex_heap 0)) 0)
       = [Timestamp 0 0, Timestamp 1 0]"
proof -
  have n: "0 < next_free ex_heap" by (simp add: ex_heap0)
  have b: "add_blockchain_data ex_chain ex_heap 0 ''1year'' None
       = (fst (add_blockchain_data ex_chain ex_heap 0 ''1year'' None), Inr 1)"
    using ex_bc1 by (simp add: prod_eq_iff)
  have t: "add_all_technical_indicators ex_ta ex_heap 0
       = (fst (add_all_technical_indicators ex_ta ex_heap 0), Inr 1)"
    using ex_ta1 by (simp add: prod_eq_iff)
  have i: "index (frame_at ex_heap 0) = [Timestamp 0 0, Timestamp 1 0]"
    by (simp add: ex_heap0 ex_frame_def index_def)
  from stages_assign_and_return_new [OF n, of ex_chain "''1year''" None
      "fst (add_blockchain_data ex_chain ex_heap 0 ''1year'' None)" 1 ex_ta
      "fst (add_all_technical_indicators ex_ta ex_heap 0)" 1] b t i
  show ?thesis using n by simp
qed


subsection \<open>Cleaning\<close>

text \<open>
  C6: cleaning is idempotent; it keeps the columns, drops exactly the rows that contain an
  undefined value (every other row stays, as often as it occurred), and the rows that stay
  keep their relative order. The frame that \<open>add_blockchain_data\<close> returns is already
  clean, so the cleaning that \<open>main\<close> runs on it (data\_controller.py, line 44) changes
  nothing.
\<close>

theorem clean_data_idempotent:
  "clean_data (clean_data t) = clean_data t
   \<and> columns (clean_data t) = columns t
   \<and> rows (clean_data t) = filter (\<lambda>r. None \<notin> set (snd r)) (rows t)
   \<and> (\<forall>r. r \<in> set (rows (clean_data t)) \<longleftrightarrow> r \<in> set (rows t) \<and> None \<notin> set (snd r))
   \<and> (\<forall>r. None \<notin> set (snd r) \<longrightarrow> count_list (rows (clean_data t)) r = count_list (rows t) r)
   \<and> subseq (rows (clean_data t)) (rows t)
   \<and> (add_blockchain_data api h a timespan start = (h', Inr res) \<longrightarrow>
         clean_data (frame_at h' res) = frame_at h' res)"
proof -
  have eq: "(\<lambda>r::row. \<not> has_undefined r) = (\<lambda>r. None \<notin> set (snd r))"
    by (auto simp: has_undefined_def fun_eq_iff)
  have cnt: "\<And>r xs. None \<notin> set (snd r) \<Longrightarrow>
      count_list (filter (\<lambda>r::row. \<not> has_undefined r) xs) r = count_list xs r"
  proof -
    fix r :: row and xs
    assume "None \<notin> set (snd r)"
    then show "count_list (filter (\<lambda>r. \<not> has_undefined r) xs) r = count_list xs r"
      by (induction xs) (auto simp: has_undefined_def)
  qed
  have idem: "\<And>u. clean_data (clean_data u) = clean_data u"
    by (simp add: clean_data_def)
  have ret: "add_blockchain_data api h a timespan start = (h', Inr res) \<longrightarrow>
         clean_data (frame_at h' res) = frame_at h' res"
  proof
    assume "add_blockchain_data api h a timespan start = (h', Inr res)"
    from add_blockchain_data_heap[OF this] obtain merged where
      "frame_at h' res = clean_data merged" by auto
    then show "clean_data (frame_at h' res) = frame_at h' res" by (simp add: idem)
  qed
  have "clean_data (clean_data t) = clean_data t
   \<and> columns (clean_data t) = columns t
   \<and> rows (clean_data t) = filter (\<lambda>r. None \<notin> set (snd r)) (rows t)
   \<and> (\<forall>r. r \<in> set (rows (clean_data t)) \<longleftrightarrow> r \<in> set (rows t) \<and> None \<notin> set (snd r))
   \<and> (\<forall>r. None \<notin> set (snd r) \<longrightarrow> count_list (rows (clean_data t)) r = count_list (rows t) r)
   \<and> subseq (rows (clean_data t)) (rows t)"
    by (auto simp: clean_data_def eq cnt[unfolded eq] has_undefined_def)
  then show ?thesis using ret by blast
qed

theorem clean_data_idempotent_witness:
  "None \<notin> set (snd (Date 1, [Some 2, Some 3]))
   \<and> count_list (rows (clean_data ex_gappy)) (Date 1, [Some 2, Some 3]) = 1
   \<and> (Date 0, [Some 1, None]) \<notin> set (rows (clean_data ex_gappy))
   \<and> clean_data (clean_data ex_gappy) = clean_data ex_gappy
   \<and> add_blockchain_data ex_chain ex_heap 0 ''1year'' None
       = (fst (add_blockchain_data ex_chain ex_heap 0 ''1year'' None), Inr 1)
   \<and> clean_data (frame_at (fst (add_blockchain_data ex_chain ex_heap 0 ''1year'' None)) 1)
       = frame_at (fst (add_blockchain_data ex_chain ex_heap 0 ''1year'' None)) 1"
proof -
  have b: "add_blockchain_data ex_chain ex_heap 0 ''1year'' None
       = (fst (add_blockchain_data ex_chain ex_heap 0 ''1year'' None), Inr 1)"
    using ex_bc1 by (simp add: prod_eq_iff)
  have "clean_data (frame_at (fst (add_blockchain_data ex_chain ex_heap 0 ''1year'' None)) 1)
       = frame_at (fst (add_blockchain_data ex_chain ex_heap 0 ''1year'' None)) 1"
    using clean_data_idempotent [of ex_gappy ex_chain ex_heap 0 "''1year''" None
        "fst (add_blockchain_data ex_chain ex_heap 0 ''1year'' None)" 1] b
    by blast
  moreover have "None \<notin> set (snd (Date 1, [Some 2, Some 3]))
   \<and> count_list (rows (clean_data ex_gappy)) (Date 1, [Some 2, Some 3]) = 1
   \<and> (Date 0, [Some 1, None]) \<notin> set (rows (clean_data ex_gappy))
   \<and> clean_data (clean_data ex_gappy) = clean_data ex_gappy"
    using clean_data_idempotent [of ex_gappy] by (simp add: ex_gappy_def)
  ultimately show ?thesis using b by simp
qed

end
